theory Spec2Isabelle
  imports Complex_Main "HOL-Library.Monad_Syntax"
begin

section \<open>Numbers, failures and 2x2 matrices\<close>

text \<open>
  The script \<^verbatim>\<open>transfermatrix_varyThickness.py\<close> computes with numpy's
  \<^verbatim>\<open>float64\<close> and \<^verbatim>\<open>complex128\<close>. The embedding idealises them as the
  exact fields \<^typ>\<open>real\<close> and \<^typ>\<open>complex\<close>: rounding and overflow are not modelled.
  What is modelled is every division. numpy does not raise on a zero divisor, it
  warns and yields \<^verbatim>\<open>inf\<close> or \<^verbatim>\<open>nan\<close>; such a result is the value \<open>None\<close>
  here, and a finite result \<open>v\<close> is \<open>Some v\<close>. A non-finite value poisons every
  value computed from it, which is the \<open>bind\<close> of the option monad.

  Exceptions are a separate matter: they are values of the type \<open>error\<close>, returned on
  the left of a sum. The source has no \<^verbatim>\<open>raise\<close> statement; the exceptions it can
  throw come from list indexing and from \<^verbatim>\<open>np.arange\<close> with a zero step.
  \<open>InvalidOpticalConstant\<close> is an error kind that the specification names; no path of
  the source raises it.
\<close>

datatype error = IndexError | ZeroDivisionError | InvalidOpticalConstant

definition cdiv :: "complex \<Rightarrow> complex \<Rightarrow> complex option" where
  "cdiv a b = (if b = 0 then None else Some (a / b))"

definition rdiv :: "real \<Rightarrow> real \<Rightarrow> real option" where
  "rdiv a b = (if b = 0 then None else Some (a / b))"

datatype mat2 = Mat2 (m00: complex) (m01: complex) (m10: complex) (m11: complex)

text \<open>\<^verbatim>\<open>np.eye(2)\<close>, and the product \<^verbatim>\<open>np.mat(A) * np.mat(B)\<close>.\<close>

definition eye2 :: mat2 where
  "eye2 = Mat2 1 0 0 1"

fun mat_mul :: "mat2 \<Rightarrow> mat2 \<Rightarrow> mat2" where
  "mat_mul (Mat2 a b c d) (Mat2 e f g h) =
     Mat2 (a * e + b * g) (a * f + b * h) (c * e + d * g) (c * f + d * h)"

text \<open>\<^verbatim>\<open>ret / t\<close>: every entry of the array divided by the scalar \<open>t\<close>.\<close>

definition mat_div :: "mat2 \<Rightarrow> complex \<Rightarrow> mat2 option" where
  "mat_div m t =
     (if t = 0 then None else Some (Mat2 (m00 m / t) (m01 m / t) (m10 m / t) (m11 m / t)))"

section \<open>The helper functions\<close>

text \<open>
  \<^verbatim>\<open>
  def I_mat(n1, n2):
      r = (n1 - n2) / (n1 + n2)
      t = (2 * n1) / (n1 + n2)
      ret = np.array([[1, r], [r, 1]], dtype=complex)
      ret = ret / t
      return ret
  \<close>
\<close>

definition I_mat :: "complex \<Rightarrow> complex \<Rightarrow> mat2 option" where
  "I_mat n1 n2 = do {
     r \<leftarrow> cdiv (n1 - n2) (n1 + n2);
     t \<leftarrow> cdiv (2 * n1) (n1 + n2);
     mat_div (Mat2 1 r r 1) t
   }"

text \<open>
  A call of \<^verbatim>\<open>I_mat\<close> on numpy scalars always returns: its body raises nothing, so
  the outcome of the call is on the right of the sum whatever the arguments are.
\<close>

definition I_mat_call :: "complex \<Rightarrow> complex \<Rightarrow> error + mat2 option" where
  "I_mat_call n1 n2 = Inr (I_mat n1 n2)"

text \<open>
  \<^verbatim>\<open>
  def L_mat(n, d, l):
      xi = (2 * np.pi * d * n) / l
      L = np.array([[np.exp(complex(0, -1.0 * xi)), 0], [0, np.exp(complex(0, xi))]])
      return L
  \<close>
  \<^verbatim>\<open>xi\<close> is complex, and Python's \<^verbatim>\<open>complex(0, z)\<close> is \<^verbatim>\<open>0 + z * 1j\<close>.
\<close>

definition L_mat :: "complex \<Rightarrow> real \<Rightarrow> real \<Rightarrow> mat2 option" where
  "L_mat n d l = do {
     xi \<leftarrow> cdiv (2 * of_real pi * of_real d * n) (of_real l);
     Some (Mat2 (exp (\<i> * (- 1 * xi))) 0 0 (exp (\<i> * xi)))
   }"

section \<open>The coherent stack solver\<close>

text \<open>
  The table \<^verbatim>\<open>n\<close> is a numpy array with one row per layer and one column per
  wavelength, the list \<^verbatim>\<open>t\<close> holds the thicknesses, and \<^verbatim>\<open>ind\<close> is the index of
  the current wavelength \<^verbatim>\<open>lambdas[ind]\<close>.
  \<^verbatim>\<open>
  S = I_mat(n[0, ind], n[1, ind])
  for matind in np.arange(1, len(t) - 1):
      mL = L_mat(n[matind, ind], t[matind], lambdas[ind])
      mI = I_mat(n[matind, ind], n[matind + 1, ind])
      S = np.asarray(np.mat(S) * np.mat(mL) * np.mat(mI))
  R[ind] = abs(S[1, 0] / S[0, 0]) ** 2
  \<close>
  The product \<^verbatim>\<open>A * B * C\<close> of Python is \<^verbatim>\<open>(A * B) * C\<close>.
\<close>

definition S_step ::
  "complex list list \<Rightarrow> real list \<Rightarrow> real list \<Rightarrow> nat \<Rightarrow> mat2 option \<Rightarrow> nat \<Rightarrow> mat2 option" where
  "S_step n t lambdas ind S matind = do {
     s \<leftarrow> S;
     mL \<leftarrow> L_mat (n ! matind ! ind) (t ! matind) (lambdas ! ind);
     mI \<leftarrow> I_mat (n ! matind ! ind) (n ! (matind + 1) ! ind);
     Some (mat_mul (mat_mul s mL) mI)
   }"

definition S_chain :: "complex list list \<Rightarrow> real list \<Rightarrow> real list \<Rightarrow> nat \<Rightarrow> mat2 option" where
  "S_chain n t lambdas ind =
     foldl (S_step n t lambdas ind) (I_mat (n ! 0 ! ind) (n ! 1 ! ind)) [1..<length t - 1]"

definition R_of :: "mat2 option \<Rightarrow> real option" where
  "R_of S = do {
     s \<leftarrow> S;
     z \<leftarrow> cdiv (m10 s) (m00 s);
     Some ((cmod z)\<^sup>2)
   }"

definition R_at :: "complex list list \<Rightarrow> real list \<Rightarrow> real list \<Rightarrow> nat \<Rightarrow> real option" where
  "R_at n t lambdas ind = R_of (S_chain n t lambdas ind)"

text \<open>
  The chain in the words of the specification: start with the interface matrix between
  layer \<open>0\<close> and layer \<open>1\<close>; for the intermediate layers \<open>1, 2, ...\<close> in increasing
  order, post-multiply by the propagation matrix of the layer and then by the interface
  matrix to the next layer. \<open>S_spec n t lambdas ind k\<close> is the chain after \<open>k\<close>
  intermediate layers. Post-multiplying \<open>A\<close> by \<open>B\<close> gives the row-by-column product
  with \<open>A\<close> on the left; it is written out entry by entry here, first for the
  propagation matrix (\<open>p\<close>), then for the interface matrix.
\<close>

primrec S_spec :: "complex list list \<Rightarrow> real list \<Rightarrow> real list \<Rightarrow> nat \<Rightarrow> nat \<Rightarrow> mat2 option" where
  "S_spec n t lambdas ind 0 = I_mat (n ! 0 ! ind) (n ! 1 ! ind)"
| "S_spec n t lambdas ind (Suc k) = do {
     s \<leftarrow> S_spec n t lambdas ind k;
     mL \<leftarrow> L_mat (n ! Suc k ! ind) (t ! Suc k) (lambdas ! ind);
     mI \<leftarrow> I_mat (n ! Suc k ! ind) (n ! Suc (Suc k) ! ind);
     let p = Mat2 (m00 s * m00 mL + m01 s * m10 mL) (m00 s * m01 mL + m01 s * m11 mL)
                  (m10 s * m00 mL + m11 s * m10 mL) (m10 s * m01 mL + m11 s * m11 mL)
     in Some (Mat2 (m00 p * m00 mI + m01 p * m10 mI) (m00 p * m01 mI + m01 p * m11 mI)
                   (m10 p * m00 mI + m11 p * m10 mI) (m10 p * m01 mI + m11 p * m11 mI))
   }"

section \<open>The incoherent substrate correction\<close>

text \<open>
  Before the sweep, from row \<open>0\<close> of the index table (one entry per wavelength):
  \<^verbatim>\<open>
  T_glass = abs((4.0 * 1.0 * n[0, :]) / ((1 + n[0, :]) ** 2))
  R_glass = abs((1 - n[0, :]) / (1 + n[0, :])) ** 2
  \<close>
\<close>

definition T_glass_of :: "complex list \<Rightarrow> real option list" where
  "T_glass_of n0 = map (\<lambda>z. map_option cmod (cdiv (4 * 1 * z) ((1 + z)\<^sup>2))) n0"

definition R_glass_of :: "complex list \<Rightarrow> real option list" where
  "R_glass_of n0 = map (\<lambda>z. map_option (\<lambda>w. (cmod w)\<^sup>2) (cdiv (1 - z) (1 + z))) n0"

text \<open>
  Inside the sweep, for each wavelength:
  \<^verbatim>\<open>
  T[ind] = abs((2 / (1 + n[0, ind]))) / np.sqrt(1 - R_glass[ind] * R[ind])
  \<close>
  \<^verbatim>\<open>np.sqrt\<close> of a negative number is \<^verbatim>\<open>nan\<close>, and a zero under the root
  makes the quotient infinite.
\<close>

definition T_of :: "complex \<Rightarrow> real option \<Rightarrow> real option \<Rightarrow> real option" where
  "T_of n0 Rg Rv = do {
     a \<leftarrow> cdiv 2 (1 + n0);
     rg \<leftarrow> Rg;
     r \<leftarrow> Rv;
     if 1 - rg * r \<le> 0 then None else Some (cmod a / sqrt (1 - rg * r))
   }"

section \<open>The device cross-section\<close>

text \<open>
  \<^verbatim>\<open>np.arange(start, stop, step, float)\<close> has \<open>ceil((stop - start) / step)\<close>
  entries (none when that is not positive), entry \<open>i\<close> being \<open>start + i * step\<close>; a
  zero step raises.
\<close>

definition np_arange :: "real \<Rightarrow> real \<Rightarrow> real \<Rightarrow> error + real list" where
  "np_arange start stop step =
     (if step = 0 then Inl ZeroDivisionError
      else Inr (map (\<lambda>i. start + real i * step) [0..<nat \<lceil>(stop - start) / step\<rceil>]))"

text \<open>\<^verbatim>\<open>np.cumsum(t)\<close>: the running sums of the thicknesses.\<close>

fun cumsum_from :: "real \<Rightarrow> real list \<Rightarrow> real list" where
  "cumsum_from acc [] = []"
| "cumsum_from acc (x # xs) = (acc + x) # cumsum_from (acc + x) xs"

definition cumsum :: "real list \<Rightarrow> real list" where
  "cumsum xs = cumsum_from 0 xs"

text \<open>
  \<^verbatim>\<open>
  comp1 = np.kron(np.ones((len(t), 1)), x_pos)
  comp2 = np.transpose(np.kron(np.ones((len(x_pos), 1)), t_cumsum))
  x_mat = sum(comp1 > comp2, 0)
  \<close>
  Row \<open>j\<close>, column \<open>i\<close> of the comparison is \<^verbatim>\<open>x_pos[i] > t_cumsum[j]\<close>, and the
  sum runs down each column: entry \<open>i\<close> of \<^verbatim>\<open>x_mat\<close> counts the cumulative sums that
  position \<open>i\<close> strictly exceeds.
\<close>

definition layer_of :: "real list \<Rightarrow> real \<Rightarrow> nat" where
  "layer_of t_cumsum x = length (filter (\<lambda>c. x > c) t_cumsum)"

definition x_mat_of :: "real list \<Rightarrow> real list \<Rightarrow> nat list" where
  "x_mat_of x_pos t_cumsum = map (layer_of t_cumsum) x_pos"

text \<open>\<^verbatim>\<open>np.nonzero(x_mat == material)\<close>: the indices of the positions of a layer.\<close>

definition x_indices_of :: "nat list \<Rightarrow> nat \<Rightarrow> nat list" where
  "x_indices_of x_mat material = filter (\<lambda>i. x_mat ! i = material) [0..<length x_mat]"

section \<open>The field profile calculator\<close>

text \<open>
  \<^verbatim>\<open>
  S_prime = I_mat(n[0, ind], n[1, ind])
  for matind in np.arange(2, material + 1):
      mL = L_mat(n[matind - 1, ind], t[matind - 1], lambdas[ind])
      mI = I_mat(n[matind - 1, ind], n[matind, ind])
      S_prime = np.asarray(np.mat(S_prime) * np.mat(mL) * np.mat(mI))
  S_dprime = np.eye(2)
  for matind in np.arange(material, len(t) - 1):
      mI = I_mat(n[matind, ind], n[matind + 1, ind])
      mL = L_mat(n[matind + 1, ind], t[matind + 1], lambdas[ind])
      S_dprime = np.asarray(np.mat(S_dprime) * np.mat(mI) * np.mat(mL))
  \<close>
\<close>

definition S_prime_step ::
  "complex list list \<Rightarrow> real list \<Rightarrow> real list \<Rightarrow> nat \<Rightarrow> mat2 option \<Rightarrow> nat \<Rightarrow> mat2 option" where
  "S_prime_step n t lambdas ind S matind = do {
     s \<leftarrow> S;
     mL \<leftarrow> L_mat (n ! (matind - 1) ! ind) (t ! (matind - 1)) (lambdas ! ind);
     mI \<leftarrow> I_mat (n ! (matind - 1) ! ind) (n ! matind ! ind);
     Some (mat_mul (mat_mul s mL) mI)
   }"

definition S_prime_of ::
  "complex list list \<Rightarrow> real list \<Rightarrow> real list \<Rightarrow> nat \<Rightarrow> nat \<Rightarrow> mat2 option" where
  "S_prime_of n t lambdas ind material =
     foldl (S_prime_step n t lambdas ind) (I_mat (n ! 0 ! ind) (n ! 1 ! ind)) [2..<material + 1]"

definition S_dprime_step ::
  "complex list list \<Rightarrow> real list \<Rightarrow> real list \<Rightarrow> nat \<Rightarrow> mat2 option \<Rightarrow> nat \<Rightarrow> mat2 option" where
  "S_dprime_step n t lambdas ind S matind = do {
     s \<leftarrow> S;
     mI \<leftarrow> I_mat (n ! matind ! ind) (n ! (matind + 1) ! ind);
     mL \<leftarrow> L_mat (n ! (matind + 1) ! ind) (t ! (matind + 1)) (lambdas ! ind);
     Some (mat_mul (mat_mul s mI) mL)
   }"

definition S_dprime_of ::
  "complex list list \<Rightarrow> real list \<Rightarrow> real list \<Rightarrow> nat \<Rightarrow> nat \<Rightarrow> mat2 option" where
  "S_dprime_of n t lambdas ind material =
     foldl (S_dprime_step n t lambdas ind) (Some eye2) [material..<length t - 1]"

text \<open>
  The field at one position of the layer \<^verbatim>\<open>material\<close>, at the distance \<open>x\<close> from the
  start of the layer (\<^verbatim>\<open>x = x_pos[x_indices] - t_cumsum[material - 1]\<close>):
  \<^verbatim>\<open>
  xi = 2 * np.pi * n[material, ind] / lambdas[ind]
  dj = t[material]
  num = T[ind] * (
      S_dprime[0, 0] * np.exp(complex(0, -1.0) * xi * (dj - x))
      + S_dprime[1, 0] * np.exp(complex(0, 1) * xi * (dj - x)))
  den = S_prime[0, 0] * S_dprime[0, 0] * np.exp(complex(0, -1.0) * xi * dj)
      + S_prime[0, 1] * S_dprime[1, 0] * np.exp(complex(0, 1) * xi * dj)
  E[x_indices, ind] = num / den
  \<close>
\<close>

definition E_value ::
  "complex list list \<Rightarrow> real list \<Rightarrow> real list \<Rightarrow> nat \<Rightarrow> real option \<Rightarrow> nat \<Rightarrow> real
     \<Rightarrow> complex option" where
  "E_value n t lambdas ind Tv material x = do {
     xi \<leftarrow> cdiv (2 * of_real pi * (n ! material ! ind)) (of_real (lambdas ! ind));
     sp \<leftarrow> S_prime_of n t lambdas ind material;
     sd \<leftarrow> S_dprime_of n t lambdas ind material;
     T \<leftarrow> Tv;
     let dj = t ! material;
         num = of_real T * (m00 sd * exp (- \<i> * xi * of_real (dj - x))
                           + m10 sd * exp (\<i> * xi * of_real (dj - x)));
         den = m00 sp * m00 sd * exp (- \<i> * xi * of_real dj)
               + m01 sp * m10 sd * exp (\<i> * xi * of_real dj)
     in cdiv num den
   }"

text \<open>
  The array \<^verbatim>\<open>E\<close> has one row per position and one column per wavelength. The
  assignment \<^verbatim>\<open>E[x_indices, ind] = v\<close> writes column \<^verbatim>\<open>ind\<close> of the rows listed in
  \<^verbatim>\<open>x_indices\<close> and nothing else.
\<close>

definition assign_E ::
  "complex option list list \<Rightarrow> nat list \<Rightarrow> nat \<Rightarrow> (nat \<Rightarrow> complex option)
     \<Rightarrow> complex option list list" where
  "assign_E E x_indices ind v = foldl (\<lambda>E' i. E'[i := (E' ! i)[ind := v i]]) E x_indices"

text \<open>The body of \<^verbatim>\<open>for material in np.arange(1, len(t))\<close>, and the loop.\<close>

definition field_material ::
  "complex list list \<Rightarrow> real list \<Rightarrow> real list \<Rightarrow> real list \<Rightarrow> nat list \<Rightarrow> nat \<Rightarrow> real option
     \<Rightarrow> complex option list list \<Rightarrow> nat \<Rightarrow> complex option list list" where
  "field_material n t lambdas x_pos x_mat ind Tv E material =
     assign_E E (x_indices_of x_mat material) ind
       (\<lambda>i. E_value n t lambdas ind Tv material (x_pos ! i - cumsum t ! (material - 1)))"

definition field_wavelength ::
  "complex list list \<Rightarrow> real list \<Rightarrow> real list \<Rightarrow> real list \<Rightarrow> nat list \<Rightarrow> real option list
     \<Rightarrow> complex option list list \<Rightarrow> nat \<Rightarrow> complex option list list" where
  "field_wavelength n t lambdas x_pos x_mat Ts E ind =
     foldl (field_material n t lambdas x_pos x_mat ind (Ts ! ind)) E [1..<length t]"

section \<open>The absorption and generation integrator\<close>

text \<open>The constants \<^verbatim>\<open>h = 6.62606957e-34\<close>, \<^verbatim>\<open>c = 2.99792458e8\<close> and
  \<^verbatim>\<open>q = 1.60217657e-19\<close>.\<close>

definition h_planck :: real where
  "h_planck = 662606957 / 10 ^ 42"

definition c_light :: real where
  "c_light = 299792458"

definition q_charge :: real where
  "q_charge = 160217657 / 10 ^ 27"

text \<open>
  \<^verbatim>\<open>
  a = np.zeros((len(t), len(lambdas)))
  for matind in np.arange(1, len(t)):
      a[matind, :] = (4 * np.pi * np.imag(n[matind, :])) / (lambdas * 1.0e-7)
  \<close>
\<close>

definition a_of :: "complex list list \<Rightarrow> real list \<Rightarrow> real list \<Rightarrow> real option list list" where
  "a_of n t lambdas =
     map (\<lambda>matind.
            if matind = 0 then replicate (length lambdas) (Some 0)
            else map (\<lambda>ind. rdiv (4 * pi * Im (n ! matind ! ind)) (lambdas ! ind * (1 / 10 ^ 7)))
                   [0..<length lambdas])
       [0..<length t]"

text \<open>\<^verbatim>\<open>np.sum\<close> of an array: non-finite as soon as one entry is.\<close>

definition osum :: "real option list \<Rightarrow> real option" where
  "osum xs = foldl (\<lambda>acc x. do { a \<leftarrow> acc; v \<leftarrow> x; Some (a + v) }) (Some 0) xs"

text \<open>
  \<^verbatim>\<open>
  if len(lambdas) == 1:
      lambda_step = 1
  else:
      lambda_step = (sorted(lambdas)[-1] - sorted(lambdas)[0]) / (len(lambdas) - 1)
  \<close>
  On an empty grid \<^verbatim>\<open>sorted(lambdas)[-1]\<close> raises.
\<close>

definition lambda_step_of :: "real list \<Rightarrow> error + real option" where
  "lambda_step_of lambdas =
     (if length lambdas = 1 then Inr (Some 1)
      else if lambdas = [] then Inl IndexError
      else Inr (rdiv (last (sort lambdas) - hd (sort lambdas)) (real (length lambdas) - 1)))"

text \<open>
  \<^verbatim>\<open>
  ActivePos = np.nonzero(x_mat == activeLayer)
  tmp1 = a[activeLayer, :] * np.real(n[activeLayer, :]) * am15_int_y
  Q = np.tile(tmp1, (np.size(ActivePos), 1)) * (abs(E[ActivePos, :]) ** 2)
  Gxl = (Q * 1.0e-3) * np.tile((lambdas * 1.0e-9), (np.size(ActivePos), 1)) / (h * c)
  Gx = np.sum(Gxl, 2) * lambda_step
  Jsc[thickInd] = np.sum(Gx) * x_step * 1.0e-7 * q * 1.0e3
  \<close>
  \<open>Gxl_of\<close> is the entry of \<^verbatim>\<open>Gxl\<close> for the position with index \<open>i\<close> in \<^verbatim>\<open>x_pos\<close> and
  the wavelength \<open>ind\<close>; \<open>Gx_of\<close> sums it over the wavelengths.
\<close>

definition Gxl_of ::
  "complex list list \<Rightarrow> real list \<Rightarrow> real list \<Rightarrow> real list \<Rightarrow> nat
     \<Rightarrow> complex option list list \<Rightarrow> nat \<Rightarrow> nat \<Rightarrow> real option" where
  "Gxl_of n t lambdas am15 active E i ind = do {
     a \<leftarrow> a_of n t lambdas ! active ! ind;
     e \<leftarrow> E ! i ! ind;
     let tmp1 = a * Re (n ! active ! ind) * (am15 ! ind);
         Q = tmp1 * (cmod e)\<^sup>2
     in Some ((Q * (1 / 10 ^ 3)) * (lambdas ! ind * (1 / 10 ^ 9)) / (h_planck * c_light))
   }"

definition Gx_of ::
  "complex list list \<Rightarrow> real list \<Rightarrow> real list \<Rightarrow> real list \<Rightarrow> nat
     \<Rightarrow> complex option list list \<Rightarrow> real option \<Rightarrow> nat \<Rightarrow> real option" where
  "Gx_of n t lambdas am15 active E lstep i = do {
     s \<leftarrow> osum (map (Gxl_of n t lambdas am15 active E i) [0..<length lambdas]);
     ls \<leftarrow> lstep;
     Some (s * ls)
   }"

definition Jsc_of ::
  "complex list list \<Rightarrow> real list \<Rightarrow> real list \<Rightarrow> real list \<Rightarrow> nat
     \<Rightarrow> complex option list list \<Rightarrow> real option \<Rightarrow> nat list \<Rightarrow> real \<Rightarrow> real option" where
  "Jsc_of n t lambdas am15 active E lstep x_mat xstep = do {
     s \<leftarrow> osum (map (Gx_of n t lambdas am15 active E lstep) (x_indices_of x_mat active));
     Some (s * xstep * (1 / 10 ^ 7) * q_charge * 10 ^ 3)
   }"

section \<open>The thickness sweep\<close>

text \<open>
  The script keeps everything in module-level variables. The record holds the ones
  that matter between the iterations of the sweep loop: the inputs (the index table
  \<^verbatim>\<open>n\<close>, the spectrum \<^verbatim>\<open>am15_int_y\<close>, the grid \<^verbatim>\<open>lambdas\<close>, the configuration),
  the two substrate arrays computed before the loop, and the variables the loop body
  assigns: the list \<^verbatim>\<open>t\<close> (which is the list \<^verbatim>\<open>thicknesses\<close> itself, not a copy:
  \<^verbatim>\<open>t = thicknesses\<close>), the result array \<^verbatim>\<open>Jsc\<close>, the arrays \<^verbatim>\<open>R\<close>, \<^verbatim>\<open>T\<close>
  and \<^verbatim>\<open>E\<close>, and \<^verbatim>\<open>lambda_step\<close>. The fields \<open>n_arr\<close>, \<open>lambdas_arr\<close>, \<open>R_arr\<close>,
  \<open>T_arr\<close> and \<open>E_arr\<close> stand for \<^verbatim>\<open>n\<close>, \<^verbatim>\<open>lambdas\<close>, \<^verbatim>\<open>R\<close>, \<^verbatim>\<open>T\<close> and \<^verbatim>\<open>E\<close>.
  The two layer indices are natural numbers (``indexing starts from 0'').
\<close>

record globals =
  n_arr :: "complex list list"
  am15_int_y :: "real list"
  lambdas_arr :: "real list"
  x_step :: real
  activeLayer :: nat
  layerVaried :: nat
  varyThickness :: "real list"
  T_glass :: "real option list"
  R_glass :: "real option list"
  thicknesses :: "real list"
  Jsc :: "real option list"
  R_arr :: "real option list"
  T_arr :: "real option list"
  E_arr :: "complex option list list"
  lambda_step :: "real option"

text \<open>
  The first statements of the loop body, and the arrays it computes from them:
  \<^verbatim>\<open>
  t[layerVaried] = varyThickness[thickInd]
  t_cumsum = np.cumsum(t)
  x_pos = np.arange((x_step / 2.0), sum(t), x_step)
  R = lambdas * 0.0
  T = lambdas * 0.0
  E = np.zeros((len(x_pos), len(lambdas)), dtype=complex)
  \<close>
  The loop over the wavelengths writes entry \<^verbatim>\<open>ind\<close> of \<^verbatim>\<open>R\<close> and of \<^verbatim>\<open>T\<close> once.
\<close>

definition step_t :: "globals \<Rightarrow> nat \<Rightarrow> real list" where
  "step_t g thickInd = (thicknesses g)[layerVaried g := varyThickness g ! thickInd]"

definition step_x_pos :: "globals \<Rightarrow> nat \<Rightarrow> error + real list" where
  "step_x_pos g thickInd = np_arange (x_step g / 2) (sum_list (step_t g thickInd)) (x_step g)"

definition step_R :: "globals \<Rightarrow> nat \<Rightarrow> real option list" where
  "step_R g thickInd =
     map (R_at (n_arr g) (step_t g thickInd) (lambdas_arr g)) [0..<length (lambdas_arr g)]"

definition step_T :: "globals \<Rightarrow> nat \<Rightarrow> real option list" where
  "step_T g thickInd =
     map (\<lambda>ind. T_of (n_arr g ! 0 ! ind) (R_glass g ! ind) (step_R g thickInd ! ind))
       [0..<length (lambdas_arr g)]"

definition step_E :: "globals \<Rightarrow> nat \<Rightarrow> real list \<Rightarrow> complex option list list" where
  "step_E g thickInd x_pos =
     foldl (field_wavelength (n_arr g) (step_t g thickInd) (lambdas_arr g) x_pos
              (x_mat_of x_pos (cumsum (step_t g thickInd))) (step_T g thickInd))
       (replicate (length x_pos) (replicate (length (lambdas_arr g)) (Some 0)))
       [0..<length (lambdas_arr g)]"

text \<open>
  One iteration of \<^verbatim>\<open>for thickInd, thick in enumerate(varyThickness)\<close>. The reads
  that can leave the arrays raise \<^verbatim>\<open>IndexError\<close>: \<^verbatim>\<open>t[layerVaried]\<close>, the rows of
  \<^verbatim>\<open>n\<close> (read up to row \<^verbatim>\<open>1\<close> and up to row \<^verbatim>\<open>len(t) - 1\<close>),
  \<^verbatim>\<open>a[activeLayer, :]\<close>, \<^verbatim>\<open>sorted(lambdas)[-1]\<close> and \<^verbatim>\<open>Jsc[thickInd]\<close>. The table \<^verbatim>\<open>n\<close> and the spectrum have one column per
  wavelength by construction.
\<close>

definition sweep_step :: "nat \<Rightarrow> globals \<Rightarrow> error + globals" where
  "sweep_step thickInd g =
     (if length (thicknesses g) \<le> layerVaried g \<or> length (varyThickness g) \<le> thickInd
      then Inl IndexError
      else (case step_x_pos g thickInd of
        Inl e \<Rightarrow> Inl e
      | Inr x_pos \<Rightarrow>
          (if length (n_arr g) < max 2 (length (thicknesses g))
              \<or> length (thicknesses g) \<le> activeLayer g
           then Inl IndexError
           else (case lambda_step_of (lambdas_arr g) of
             Inl e \<Rightarrow> Inl e
           | Inr lstep \<Rightarrow>
               (if length (Jsc g) \<le> thickInd then Inl IndexError
                else Inr (g\<lparr>thicknesses := step_t g thickInd,
                            R_arr := step_R g thickInd,
                            T_arr := step_T g thickInd,
                            E_arr := step_E g thickInd x_pos,
                            lambda_step := lstep,
                            Jsc := (Jsc g)[thickInd :=
                              Jsc_of (n_arr g) (step_t g thickInd) (lambdas_arr g) (am15_int_y g)
                                (activeLayer g) (step_E g thickInd x_pos) lstep
                                (x_mat_of x_pos (cumsum (step_t g thickInd))) (x_step g)]\<rparr>))))))"

fun sweep_loop :: "nat list \<Rightarrow> globals \<Rightarrow> error + globals" where
  "sweep_loop [] g = Inr g"
| "sweep_loop (thickInd # rest) g =
     (case sweep_step thickInd g of Inl e \<Rightarrow> Inl e | Inr g' \<Rightarrow> sweep_loop rest g')"

text \<open>
  The script from its configuration. The index table and the spectrum come from the
  material files, interpolated on the grid \<^verbatim>\<open>lambdas\<close>; they are inputs here.
  \<^verbatim>\<open>
  varyThickness = np.arange(varyStart, varyFinish + varyStep, varyStep, float)
  T_glass = ...
  R_glass = ...
  t = thicknesses
  t[0] = 0
  Jsc = 0 * varyThickness
  \<close>
\<close>

definition varyThickness_of :: "real \<Rightarrow> real \<Rightarrow> real \<Rightarrow> error + real list" where
  "varyThickness_of varyStart varyFinish varyStep =
     np_arange varyStart (varyFinish + varyStep) varyStep"

definition init_globals ::
  "complex list list \<Rightarrow> real list \<Rightarrow> real list \<Rightarrow> real list \<Rightarrow> nat \<Rightarrow> nat
     \<Rightarrow> real \<Rightarrow> real \<Rightarrow> real \<Rightarrow> real \<Rightarrow> real \<Rightarrow> error + globals" where
  "init_globals n am15 lambdas ts active varied varyStart varyFinish varyStep lstep0 xstep =
     (case varyThickness_of varyStart varyFinish varyStep of
        Inl e \<Rightarrow> Inl e
      | Inr vt \<Rightarrow>
          if n = [] \<or> ts = [] then Inl IndexError
          else Inr \<lparr>n_arr = n, am15_int_y = am15, lambdas_arr = lambdas, x_step = xstep,
                    activeLayer = active, layerVaried = varied, varyThickness = vt,
                    T_glass = T_glass_of (n ! 0), R_glass = R_glass_of (n ! 0),
                    thicknesses = ts[0 := 0], Jsc = map (\<lambda>v. Some (0 * v)) vt,
                    R_arr = [], T_arr = [], E_arr = [], lambda_step = Some lstep0\<rparr>)"

definition run_sweep ::
  "complex list list \<Rightarrow> real list \<Rightarrow> real list \<Rightarrow> real list \<Rightarrow> nat \<Rightarrow> nat
     \<Rightarrow> real \<Rightarrow> real \<Rightarrow> real \<Rightarrow> real \<Rightarrow> real \<Rightarrow> error + globals" where
  "run_sweep n am15 lambdas ts active varied varyStart varyFinish varyStep lstep0 xstep =
     (case init_globals n am15 lambdas ts active varied varyStart varyFinish varyStep lstep0 xstep of
        Inl e \<Rightarrow> Inl e
      | Inr g \<Rightarrow> sweep_loop [0..<length (varyThickness g)] g)"

section \<open>Two small stacks\<close>

text \<open>
  A substrate of index \<open>1.5\<close> under a layer of index \<open>2\<close> and thickness \<open>10\<close>, at the
  single wavelength \<open>500\<close>, on a grid of step \<open>5\<close>; and a layer of index \<open>1\<close>
  between two media of index \<open>2\<close>, at the wavelength \<open>4\<close>, swept over the thicknesses
  \<open>0\<close> and \<open>1\<close> (a quarter of the wavelength). Both are the state of the script when
  it enters the sweep loop.
\<close>

definition example_two_layer :: globals where
  "example_two_layer =
     \<lparr>n_arr = [[3 / 2], [2]], am15_int_y = [1], lambdas_arr = [500],
      x_step = 5, activeLayer = 1, layerVaried = 1, varyThickness = [10],
      T_glass = T_glass_of [3 / 2], R_glass = R_glass_of [3 / 2],
      thicknesses = [0, 10], Jsc = [Some 0], R_arr = [], T_arr = [], E_arr = [],
      lambda_step = Some 5\<rparr>"

definition example_three_layer :: globals where
  "example_three_layer =
     \<lparr>n_arr = [[2], [1], [2]], am15_int_y = [1], lambdas_arr = [4],
      x_step = 1 / 2, activeLayer = 1, layerVaried = 1, varyThickness = [0, 1],
      T_glass = T_glass_of [2], R_glass = R_glass_of [2],
      thicknesses = [0, 0, 0], Jsc = [Some 0, Some 0], R_arr = [], T_arr = [], E_arr = [],
      lambda_step = Some 1\<rparr>"



section \<open>The tie-break rule in the words of the specification\<close>

text \<open>
  The specification resolves a position on a boundary by ``the layer whose cumulative
  sum is first exceeded''. Read with the position exceeding the sum, that is the first
  layer \<open>j\<close> with \<open>x > t_cumsum[j]\<close>; read the other way round, it is the first layer
  whose cumulative sum exceeds the position. Both readings are defined here, to be
  compared with \<open>layer_of\<close>.
\<close>

definition first_exceeded :: "real list \<Rightarrow> real \<Rightarrow> nat option" where
  "first_exceeded t_cumsum x = List.find (\<lambda>j. x > t_cumsum ! j) [0..<length t_cumsum]"

definition first_exceeding :: "real list \<Rightarrow> real \<Rightarrow> nat option" where
  "first_exceeding t_cumsum x = List.find (\<lambda>j. t_cumsum ! j > x) [0..<length t_cumsum]"

section \<open>Properties of the helper functions\<close>

lemma I_mat_same: "n \<noteq> 0 \<Longrightarrow> I_mat n n = Some eye2"
  by (simp add: I_mat_def cdiv_def mat_div_def eye2_def)

lemma I_mat_degenerate: "n1 + n2 = 0 \<Longrightarrow> I_mat n1 n2 = None"
  by (simp add: I_mat_def cdiv_def)

text \<open>
  Claim C3. For every complex index \<open>n\<close>, real thickness \<open>d\<close> and non-zero wavelength
  \<open>l\<close>, the propagation matrix builder returns the diagonal matrix of
  \<open>exp (- i xi)\<close> and \<open>exp (i xi)\<close> with \<open>xi = 2 pi d n / l\<close>; at thickness \<open>0\<close> the
  result is the identity matrix exactly, for every \<open>n\<close> and every such \<open>l\<close>.
\<close>

theorem L_mat_diag_and_zero_thickness:
  assumes "l \<noteq> 0"
  shows "L_mat n d l =
           Some (Mat2 (exp (- \<i> * (2 * of_real pi * of_real d * n / of_real l))) 0
                      0 (exp (\<i> * (2 * of_real pi * of_real d * n / of_real l))))
         \<and> L_mat n 0 l = Some eye2"
  using assms by (simp add: L_mat_def cdiv_def eye2_def)

theorem L_mat_diag_and_zero_thickness_witness:
  "(500::real) \<noteq> 0 \<and> L_mat (Complex 2 (1/10)) 0 500 = Some eye2
   \<and> m01 (the (L_mat (Complex 2 (1/10)) 100 500)) = 0"
  using L_mat_diag_and_zero_thickness [of 500 "Complex 2 (1/10)" 100] by simp

lemma I_mat_Some:
  "n1 \<noteq> 0 \<Longrightarrow> n1 + n2 \<noteq> 0 \<Longrightarrow>
   I_mat n1 n2 = Some (Mat2 ((n1 + n2) / (2 * n1)) ((n1 - n2) / (2 * n1))
                            ((n1 - n2) / (2 * n1)) ((n1 + n2) / (2 * n1)))"
proof -
  assume a: "n1 \<noteq> 0" "n1 + n2 \<noteq> 0"
  have e1: "1 / (2 * n1 / (n1 + n2)) = (n1 + n2) / (2 * n1)" by simp
  have e2: "(n1 - n2) / (n1 + n2) / (2 * n1 / (n1 + n2)) = (n1 - n2) / (2 * n1)"
    using a by simp
  show ?thesis
    using a
    by (simp add: I_mat_def cdiv_def mat_div_def e1 e2
        del: divide_divide_eq_right divide_divide_eq_left times_divide_eq_right)
qed

lemma exp_quarter: "exp (\<i> * complex_of_real pi / 2) = \<i>"
proof -
  have "exp (\<i> * complex_of_real (pi / 2)) = cis (pi / 2)" by (simp add: cis_conv_exp)
  then show ?thesis by simp
qed

lemma exp_minus_quarter: "exp (- (\<i> * complex_of_real pi / 2)) = - \<i>"
proof -
  have "exp (\<i> * complex_of_real (- (pi / 2))) = cis (- (pi / 2))" by (simp only: cis_conv_exp)
  then show ?thesis by simp
qed

lemma L_quarter: "L_mat 1 1 4 = Some (Mat2 (- \<i>) 0 0 \<i>)"
  by (simp add: L_mat_def cdiv_def exp_quarter exp_minus_quarter)

text \<open>
  Claim C1. At every wavelength the solver's system matrix is the chain of the
  specification: the interface matrix between layers \<open>0\<close> and \<open>1\<close>, post-multiplied,
  for each layer strictly between the first and the last in increasing order, by that
  layer's propagation matrix and then by the interface matrix to the next layer; and
  the reflectance is \<open>|S[1,0] / S[0,0]|\<^sup>2\<close>. For a stack of three layers with
  finite matrices the chain is written out: with \<open>I01 = [[a, b], [b, a]]\<close>,
  \<open>L1 = diag (em, ep)\<close> and \<open>I12 = [[c, d], [d, c]]\<close> it is \<open>(I01 L1) I12\<close>.
\<close>

theorem S_chain_is_left_chain_and_R:
  "S_chain n t lambdas ind = S_spec n t lambdas ind (length t - 2)
   \<and> R_at n t lambdas ind =
       (case S_spec n t lambdas ind (length t - 2) of
          None \<Rightarrow> None
        | Some s \<Rightarrow> if m00 s = 0 then None else Some ((cmod (m10 s / m00 s))\<^sup>2))
   \<and> (length t = 3 \<and> n ! 0 ! ind \<noteq> 0 \<and> n ! 0 ! ind + n ! 1 ! ind \<noteq> 0
        \<and> n ! 1 ! ind \<noteq> 0 \<and> n ! 1 ! ind + n ! 2 ! ind \<noteq> 0 \<and> lambdas ! ind \<noteq> 0 \<longrightarrow>
       S_chain n t lambdas ind =
         (let n0 = n ! 0 ! ind; n1 = n ! 1 ! ind; n2 = n ! 2 ! ind;
              a = (n0 + n1) / (2 * n0); b = (n0 - n1) / (2 * n0);
              c = (n1 + n2) / (2 * n1); d = (n1 - n2) / (2 * n1);
              xi = 2 * of_real pi * of_real (t ! 1) * n1 / of_real (lambdas ! ind);
              em = exp (- \<i> * xi); ep = exp (\<i> * xi)
          in Some (Mat2 (a * em * c + b * ep * d) (a * em * d + b * ep * c)
                        (b * em * c + a * ep * d) (b * em * d + a * ep * c))))"
proof (intro conjI impI)
  have entries: "mat_mul a b =
      Mat2 (m00 a * m00 b + m01 a * m10 b) (m00 a * m01 b + m01 a * m11 b)
           (m10 a * m00 b + m11 a * m10 b) (m10 a * m01 b + m11 a * m11 b)" for a b
    by (cases a; cases b) simp
  have upt: "foldl (S_step n t lambdas ind) (I_mat (n ! 0 ! ind) (n ! 1 ! ind)) [1..<Suc k]
      = S_spec n t lambdas ind k" for k
  proof (induction k)
    case 0
    show ?case by simp
  next
    case (Suc k)
    have "foldl (S_step n t lambdas ind) (I_mat (n ! 0 ! ind) (n ! 1 ! ind)) [1..<Suc (Suc k)]
        = S_step n t lambdas ind (S_spec n t lambdas ind k) (Suc k)"
      using Suc by simp
    also have "\<dots> = S_spec n t lambdas ind (Suc k)"
      by (simp add: S_step_def Let_def entries)
    finally show ?case .
  qed
  show chain: "S_chain n t lambdas ind = S_spec n t lambdas ind (length t - 2)"
  proof (cases "length t - 1 = 0")
    case True
    then have "length t - 2 = 0" by arith
    with True show ?thesis by (simp add: S_chain_def)
  next
    case False
    then have h: "length t - 1 = Suc (length t - 2)" by arith
    show ?thesis unfolding S_chain_def h by (rule upt)
  qed
  show "R_at n t lambdas ind =
       (case S_spec n t lambdas ind (length t - 2) of
          None \<Rightarrow> None
        | Some s \<Rightarrow> if m00 s = 0 then None else Some ((cmod (m10 s / m00 s))\<^sup>2))"
    by (simp add: chain R_at_def R_of_def cdiv_def split: option.split)
next
  assume a: "length t = 3 \<and> n ! 0 ! ind \<noteq> 0 \<and> n ! 0 ! ind + n ! 1 ! ind \<noteq> 0
        \<and> n ! 1 ! ind \<noteq> 0 \<and> n ! 1 ! ind + n ! 2 ! ind \<noteq> 0 \<and> lambdas ! ind \<noteq> 0"
  then have range: "[1..<length t - 1] = [1]" by (simp add: upt_rec)
  have two: "Suc (Suc 0) = 2" by simp
  from a have nz: "n ! 0 ! ind \<noteq> 0" "n ! 0 ! ind + n ! 1 ! ind \<noteq> 0"
      "n ! 1 ! ind \<noteq> 0" "n ! 1 ! ind + n ! 2 ! ind \<noteq> 0" "lambdas ! ind \<noteq> 0"
    by simp_all
  from nz show "S_chain n t lambdas ind =
         (let n0 = n ! 0 ! ind; n1 = n ! 1 ! ind; n2 = n ! 2 ! ind;
              a = (n0 + n1) / (2 * n0); b = (n0 - n1) / (2 * n0);
              c = (n1 + n2) / (2 * n1); d = (n1 - n2) / (2 * n1);
              xi = 2 * of_real pi * of_real (t ! 1) * n1 / of_real (lambdas ! ind);
              em = exp (- \<i> * xi); ep = exp (\<i> * xi)
          in Some (Mat2 (a * em * c + b * ep * d) (a * em * d + b * ep * c)
                        (b * em * c + a * ep * d) (b * em * d + a * ep * c)))"
    by (simp add: S_chain_def range S_step_def I_mat_Some L_mat_def cdiv_def Let_def two
        del: One_nat_def)
qed

theorem S_chain_is_left_chain_and_R_witness:
  "S_chain [[2], [1], [2]] [0, 1, 0] [4] 0 =
     Some (Mat2 (- (5 / 4) * \<i>) (3 / 4 * \<i>) (- (3 / 4) * \<i>) (5 / 4 * \<i>))
   \<and> R_at [[2], [1], [2]] [0, 1, 0] [4] 0 = Some (9 / 25)"
proof -
  have s: "S_chain [[2], [1], [2]] [0, 1, 0] [4] 0 =
     Some (Mat2 (- (5 / 4) * \<i>) (3 / 4 * \<i>) (- (3 / 4) * \<i>) (5 / 4 * \<i>))"
  proof -
    note th = S_chain_is_left_chain_and_R [of "[[2], [1], [2]]" "[0, 1, 0]" "[4]" 0]
    have "S_chain [[2], [1], [2]] [0, 1, 0] [4] 0 =
       (let n0 = [[2], [1], [2]] ! 0 ! 0; n1 = [[2], [1], [2]] ! 1 ! 0; n2 = [[2], [1], [2]] ! 2 ! 0;
            a = (n0 + n1) / (2 * n0); b = (n0 - n1) / (2 * n0);
            c = (n1 + n2) / (2 * n1); d = (n1 - n2) / (2 * n1);
            xi = 2 * of_real pi * of_real ([0, 1, 0] ! 1) * n1 / of_real ([4] ! 0);
            em = exp (- \<i> * xi); ep = exp (\<i> * xi)
        in Some (Mat2 (a * em * c + b * ep * d) (a * em * d + b * ep * c)
                      (b * em * c + a * ep * d) (b * em * d + a * ep * c)))"
      by (rule conjunct2[OF conjunct2[OF th], rule_format]) simp
    then show ?thesis
      by (simp add: Let_def exp_quarter exp_minus_quarter)
  qed
  then show ?thesis
    by (simp add: R_at_def R_of_def cdiv_def norm_mult power2_eq_square)
qed

text \<open>
  Claim C2, as amended. For complex \<open>n1\<close>, \<open>n2\<close> with \<open>n1\<close> and \<open>n1 + n2\<close> non-zero
  the interface matrix builder returns the matrix \<open>[[1, r], [r, 1]]\<close> scaled by
  \<open>1 / t\<close>, that is \<open>[[1 / t, r / t], [r / t, 1 / t]]\<close>, where
  \<open>r = (n1 - n2) / (n1 + n2)\<close> and \<open>t = 2 n1 / (n1 + n2)\<close>; for \<open>n1 = n2\<close> it is the
  identity matrix, and a two-layer stack whose layers have the same non-zero index at
  a wavelength has reflectance \<open>0\<close> there. For \<open>n1 = 0\<close> the transmission \<open>t\<close> is
  \<open>0\<close> and the entries returned are not finite.
\<close>

theorem I_mat_fresnel_and_identity:
  assumes "n1 \<noteq> 0" "n1 + n2 \<noteq> 0"
  shows "I_mat n1 n2 =
           Some (Mat2 (1 / (2 * n1 / (n1 + n2)))
                      ((n1 - n2) / (n1 + n2) / (2 * n1 / (n1 + n2)))
                      ((n1 - n2) / (n1 + n2) / (2 * n1 / (n1 + n2)))
                      (1 / (2 * n1 / (n1 + n2))))
         \<and> (n1 = n2 \<longrightarrow> I_mat n1 n2 = Some (Mat2 1 0 0 1))
         \<and> (n1 = n2 \<longrightarrow> length t = 2 \<longrightarrow> n ! 0 ! ind = n1 \<longrightarrow> n ! 1 ! ind = n2 \<longrightarrow>
              R_at n t lambdas ind = Some 0)
         \<and> I_mat 0 n2 = None"
proof (intro conjI impI)
  have t: "2 * n1 / (n1 + n2) \<noteq> 0" using assms by simp
  have "I_mat n1 n2 = mat_div (Mat2 1 ((n1 - n2) / (n1 + n2)) ((n1 - n2) / (n1 + n2)) 1)
                        (2 * n1 / (n1 + n2))"
    using assms by (simp add: I_mat_def cdiv_def)
  also have "\<dots> = Some (Mat2 (1 / (2 * n1 / (n1 + n2)))
                      ((n1 - n2) / (n1 + n2) / (2 * n1 / (n1 + n2)))
                      ((n1 - n2) / (n1 + n2) / (2 * n1 / (n1 + n2)))
                      (1 / (2 * n1 / (n1 + n2))))"
    unfolding mat_div_def using t by (simp only: if_False mat2.sel)
  finally show "I_mat n1 n2 =
           Some (Mat2 (1 / (2 * n1 / (n1 + n2)))
                      ((n1 - n2) / (n1 + n2) / (2 * n1 / (n1 + n2)))
                      ((n1 - n2) / (n1 + n2) / (2 * n1 / (n1 + n2)))
                      (1 / (2 * n1 / (n1 + n2))))" .
next
  assume "n1 = n2"
  with assms show "I_mat n1 n2 = Some (Mat2 1 0 0 1)"
    by (simp add: I_mat_same eye2_def)
next
  assume eq: "n1 = n2" and two: "length t = 2"
    and n0: "n ! 0 ! ind = n1" and n1: "n ! 1 ! ind = n2"
  from assms eq have "I_mat n1 n2 = Some eye2"
    by (simp add: I_mat_same)
  with two n0 n1 have "S_chain n t lambdas ind = Some eye2"
    by (simp add: S_chain_def)
  then show "R_at n t lambdas ind = Some 0"
    by (simp add: R_at_def R_of_def cdiv_def eye2_def)
next
  show "I_mat 0 n2 = None"
    by (simp add: I_mat_def cdiv_def mat_div_def)
qed

theorem I_mat_fresnel_and_identity_witness:
  "I_mat 2 1 = Some (Mat2 (3 / 4) (1 / 4) (1 / 4) (3 / 4))
   \<and> I_mat (3 / 2) (3 / 2) = Some (Mat2 1 0 0 1)
   \<and> R_at [[3 / 2, 3 / 2], [3 / 2, 3 / 2]] [0, 100] [500, 505] 1 = Some 0"
proof -
  have "I_mat 2 1 = Some (Mat2 (3 / 4) (1 / 4) (1 / 4) (3 / 4))"
    using I_mat_fresnel_and_identity [of 2 1] by simp
  moreover have "I_mat (3 / 2) (3 / 2) = Some (Mat2 1 0 0 1)
      \<and> R_at [[3 / 2, 3 / 2], [3 / 2, 3 / 2]] [0, 100] [500, 505] 1 = Some 0"
    using I_mat_fresnel_and_identity
      [of "3 / 2" "3 / 2" "[0, 100]" "[[3 / 2, 3 / 2], [3 / 2, 3 / 2]]" 1 "[500, 505]"]
    by simp
  ultimately show ?thesis by simp
qed

text \<open>
  The claim C2 as the specification states it, for every pair with \<open>n1 + n2\<close>
  non-zero, fails at \<open>n1 = 0\<close>, \<open>n2 = 2\<close>: there \<open>r = - 1\<close> and \<open>t = 0\<close>, and the
  division by \<open>t\<close> leaves no finite entry.
\<close>

theorem I_mat_zero_first_index_nonfinite:
  "(0::complex) + 2 \<noteq> 0 \<and> (0 - 2) / (0 + 2) = (- 1 :: complex)
   \<and> 2 * 0 / (0 + 2) = (0::complex) \<and> I_mat 0 2 = None"
  by (simp add: I_mat_def cdiv_def mat_div_def)

text \<open>
  Claim C9, as amended. When \<open>n1 + n2 = 0\<close> the interface matrix builder raises no
  error: the call returns, and what it returns is a matrix of non-finite entries.
\<close>

theorem I_mat_degenerate_returns_nonfinite:
  "n1 + n2 = 0 \<Longrightarrow> I_mat_call n1 n2 = Inr None"
  by (simp add: I_mat_call_def I_mat_degenerate)

theorem I_mat_degenerate_returns_nonfinite_witness:
  "(1::complex) + (- 1) = 0 \<and> I_mat_call 1 (- 1) = Inr None"
  using I_mat_degenerate_returns_nonfinite [of 1 "- 1"] by simp

text \<open>
  The claim C9 as the specification states it, an \<open>InvalidOpticalConstant\<close> error for
  \<open>n1 + n2 = 0\<close>, fails at \<open>n1 = 1\<close>, \<open>n2 = - 1\<close>.
\<close>

theorem I_mat_no_InvalidOpticalConstant:
  "\<not> ((1::complex) + (- 1) = 0 \<longrightarrow> I_mat_call 1 (- 1) = Inl InvalidOpticalConstant)"
  by (simp add: I_mat_call_def)


section \<open>Properties of the cross-section\<close>

lemma cumsum_from_length: "length (cumsum_from acc xs) = length xs"
  by (induction xs arbitrary: acc) simp_all

lemma cumsum_from_ge: "\<forall>d\<in>set xs. 0 \<le> d \<Longrightarrow> c \<in> set (cumsum_from acc xs) \<Longrightarrow> acc \<le> c"
proof (induction xs arbitrary: acc)
  case Nil
  then show ?case by simp
next
  case (Cons a xs)
  from Cons.prems(2) have "c = acc + a \<or> c \<in> set (cumsum_from (acc + a) xs)" by simp
  then show ?case
  proof
    assume "c = acc + a" with Cons.prems(1) show ?thesis by simp
  next
    assume "c \<in> set (cumsum_from (acc + a) xs)"
    with Cons.IH[of "acc + a"] Cons.prems(1) have "acc + a \<le> c" by simp
    with Cons.prems(1) show ?thesis by simp
  qed
qed

lemma cumsum_from_sorted: "\<forall>d\<in>set xs. 0 \<le> d \<Longrightarrow> sorted (cumsum_from acc xs)"
proof (induction xs arbitrary: acc)
  case Nil
  then show ?case by simp
next
  case (Cons a xs)
  then show ?case using cumsum_from_ge[of xs _ "acc + a"] by auto
qed

lemma cumsum_from_nth_Suc:
  "Suc j < length xs \<Longrightarrow> cumsum_from acc xs ! Suc j = cumsum_from acc xs ! j + xs ! Suc j"
proof (induction xs arbitrary: acc j)
  case Nil
  then show ?case by simp
next
  case (Cons a xs)
  show ?case
  proof (cases j)
    case 0
    with Cons.prems show ?thesis by (cases xs) simp_all
  next
    case (Suc j')
    with Cons.prems Cons.IH[of j' "acc + a"] show ?thesis by simp
  qed
qed

lemma filter_less_sorted:
  "sorted cs \<Longrightarrow> filter (\<lambda>c. x > c) cs = takeWhile (\<lambda>c. x > c) cs" for x :: real
proof (induction cs)
  case Nil
  then show ?case by simp
next
  case (Cons a cs)
  show ?case
  proof (cases "x > a")
    case True
    with Cons show ?thesis by simp
  next
    case False
    with Cons.prems have "\<forall>c\<in>set cs. \<not> x > c" by auto
    then have "filter (\<lambda>c. x > c) cs = []" by (simp add: filter_empty_conv)
    with False show ?thesis by simp
  qed
qed

lemma layer_of_le: "layer_of cs x \<le> length cs"
  by (simp add: layer_of_def)

lemma layer_of_below:
  assumes "sorted cs" "j < layer_of cs x"
  shows "cs ! j < x"
proof -
  from assms have j: "j < length (takeWhile (\<lambda>c. x > c) cs)"
    by (simp add: layer_of_def filter_less_sorted)
  then have "takeWhile (\<lambda>c. x > c) cs ! j = cs ! j"
    by (rule takeWhile_nth)
  moreover from j have "takeWhile (\<lambda>c. x > c) cs ! j \<in> set (takeWhile (\<lambda>c. x > c) cs)"
    by simp
  then have "x > takeWhile (\<lambda>c. x > c) cs ! j"
    by (rule set_takeWhileD[THEN conjunct2])
  ultimately show ?thesis by simp
qed

lemma layer_of_above:
  assumes "sorted cs" "layer_of cs x < length cs"
  shows "x \<le> cs ! layer_of cs x"
proof -
  from assms have "length (takeWhile (\<lambda>c. x > c) cs) < length cs"
    by (simp add: layer_of_def filter_less_sorted)
  then have "\<not> x > cs ! length (takeWhile (\<lambda>c. x > c) cs)"
    by (rule nth_length_takeWhile)
  with assms(1) show ?thesis
    by (simp add: layer_of_def filter_less_sorted)
qed

lemma layer_of_unique:
  assumes s: "sorted cs" and k: "k \<le> length cs"
    and below: "\<forall>j<k. cs ! j < x" and above: "k < length cs \<longrightarrow> x \<le> cs ! k"
  shows "k = layer_of cs x"
proof (rule ccontr)
  assume ne: "k \<noteq> layer_of cs x"
  show False
  proof (cases "k < layer_of cs x")
    case True
    with s have "cs ! k < x" by (rule layer_of_below)
    moreover from True layer_of_le[of cs x] have "k < length cs" by simp
    ultimately show False using above by simp
  next
    case False
    with ne have lt: "layer_of cs x < k" by simp
    with k have "layer_of cs x < length cs" by simp
    with s have "x \<le> cs ! layer_of cs x" by (rule layer_of_above)
    with below lt show False by fastforce
  qed
qed

text \<open>
  Claim C8, as amended. With non-negative thicknesses, every sample position is
  assigned to exactly one layer index \<open>k\<close>: the one with every earlier cumulative sum
  strictly below the position and the position at most the cumulative sum of \<open>k\<close>.
  A position lying exactly on the cumulative sum of a layer of positive thickness is
  assigned to that layer, the one that ends at the boundary: the first layer whose
  cumulative sum the position does not exceed.
\<close>

theorem x_mat_boundary_rule:
  assumes nonneg: "\<forall>d\<in>set t. 0 \<le> d" and i: "i < length x_pos"
  shows "x_mat_of x_pos (cumsum t) ! i \<le> length t
    \<and> (\<forall>j < x_mat_of x_pos (cumsum t) ! i. cumsum t ! j < x_pos ! i)
    \<and> (x_mat_of x_pos (cumsum t) ! i < length t \<longrightarrow>
         x_pos ! i \<le> cumsum t ! (x_mat_of x_pos (cumsum t) ! i))
    \<and> (\<forall>k \<le> length t. (\<forall>j<k. cumsum t ! j < x_pos ! i)
            \<and> (k < length t \<longrightarrow> x_pos ! i \<le> cumsum t ! k)
           \<longrightarrow> k = x_mat_of x_pos (cumsum t) ! i)
    \<and> (\<forall>j < length t. x_pos ! i = cumsum t ! j \<and> 0 < t ! j
           \<longrightarrow> x_mat_of x_pos (cumsum t) ! i = j)"
proof -
  let ?cs = "cumsum t" and ?x = "x_pos ! i"
  have s: "sorted ?cs" using nonneg by (simp add: cumsum_def cumsum_from_sorted)
  have len: "length ?cs = length t" by (simp add: cumsum_def cumsum_from_length)
  have m: "x_mat_of x_pos ?cs ! i = layer_of ?cs ?x" using i by (simp add: x_mat_of_def)
  have uniq: "k = layer_of ?cs ?x"
    if "k \<le> length t" "\<forall>j<k. ?cs ! j < ?x" "k < length t \<longrightarrow> ?x \<le> ?cs ! k" for k
    using s that len by (intro layer_of_unique) simp_all
  have bnd: "layer_of ?cs ?x = j" if j: "j < length t" and eq: "?x = ?cs ! j" and pos: "0 < t ! j" for j
  proof -
    have "\<forall>j'<j. ?cs ! j' < ?x"
    proof (intro allI impI)
      fix j' assume j': "j' < j"
      then obtain j0 where j0: "j = Suc j0" by (cases j) auto
      with j have "?cs ! Suc j0 = ?cs ! j0 + t ! Suc j0"
        by (simp add: cumsum_def cumsum_from_nth_Suc)
      with pos j0 have lt: "?cs ! j0 < ?cs ! j" by simp
      from j' j0 have "j' \<le> j0" by simp
      with s j j0 len have "?cs ! j' \<le> ?cs ! j0" by (intro sorted_nth_mono) simp_all
      with lt eq show "?cs ! j' < ?x" by simp
    qed
    with uniq[of j] j eq show ?thesis by simp
  qed
  have c1: "layer_of ?cs ?x \<le> length t" using layer_of_le[of ?cs ?x] len by simp
  have c2: "\<forall>j < layer_of ?cs ?x. ?cs ! j < ?x" using layer_of_below[OF s] by blast
  have c3: "layer_of ?cs ?x < length t \<longrightarrow> ?x \<le> ?cs ! layer_of ?cs ?x"
    using layer_of_above[OF s, of ?x] len by simp
  have c4: "\<forall>k \<le> length t. (\<forall>j<k. ?cs ! j < ?x) \<and> (k < length t \<longrightarrow> ?x \<le> ?cs ! k)
           \<longrightarrow> k = layer_of ?cs ?x"
    using uniq by blast
  have c5: "\<forall>j < length t. ?x = ?cs ! j \<and> 0 < t ! j \<longrightarrow> layer_of ?cs ?x = j"
    using bnd by blast
  show ?thesis
    unfolding m using c1 c2 c3 c4 c5 by (intro conjI)
qed

theorem x_mat_boundary_rule_witness:
  "x_mat_of [1, 3, 5] (cumsum [0, 3, 4]) ! 1 = 1 \<and> [1, 3, 5 :: real] ! 1 = cumsum [0, 3, 4] ! 1"
  using x_mat_boundary_rule [of "[0, 3, 4]" 1 "[1, 3, 5]"]
  by (simp add: cumsum_def)

text \<open>
  The claim C8 as the specification states it fails for the thicknesses \<open>0, 3, 4\<close>
  and the grid step \<open>2\<close>: the position \<open>3\<close> lies on the boundary between layers
  \<open>1\<close> and \<open>2\<close> and is assigned to layer \<open>1\<close>, whose cumulative sum it does not
  exceed; the first cumulative sum it exceeds is that of layer \<open>0\<close>, and the first one
  that exceeds it is that of layer \<open>2\<close>.
\<close>

theorem x_mat_not_first_exceeded:
  "np_arange (2 / 2) (sum_list [0, 3, 4]) 2 = Inr [1, 3, 5]
   \<and> cumsum [0, 3, 4] = [0, 3, 7]
   \<and> x_mat_of [1, 3, 5] (cumsum [0, 3, 4]) ! 1 = 1
   \<and> first_exceeded (cumsum [0, 3, 4]) 3 = Some 0
   \<and> first_exceeding (cumsum [0, 3, 4]) 3 = Some 2"
  by (simp add: np_arange_def cumsum_def x_mat_of_def layer_of_def first_exceeded_def
      first_exceeding_def upt_rec)

section \<open>Properties of the sweep range and of the wavelength step\<close>

text \<open>
  The sweep over a well-formed range: \<open>ceil ((varyFinish - varyStart) / varyStep) + 1\<close>
  thicknesses, which is the \<open>floor\<close> of the same quotient plus one exactly when the
  step divides the width of the range.
\<close>

lemma varyThickness_of_values:
  assumes "0 < varyStep" "varyStart \<le> varyFinish"
  shows "varyThickness_of varyStart varyFinish varyStep =
     Inr (map (\<lambda>i. varyStart + real i * varyStep)
            [0..<nat \<lceil>(varyFinish - varyStart) / varyStep\<rceil> + 1])"
proof -
  have "(varyFinish + varyStep - varyStart) / varyStep = (varyFinish - varyStart) / varyStep + 1"
    using assms by (simp add: field_simps)
  then have c: "\<lceil>(varyFinish + varyStep - varyStart) / varyStep\<rceil>
      = \<lceil>(varyFinish - varyStart) / varyStep\<rceil> + 1"
    by simp
  have "(0::real) \<le> (varyFinish - varyStart) / varyStep"
    using assms by simp
  then have "\<lceil>0::real\<rceil> \<le> \<lceil>(varyFinish - varyStart) / varyStep\<rceil>"
    by (rule ceiling_mono)
  then have "0 \<le> \<lceil>(varyFinish - varyStart) / varyStep\<rceil>"
    by simp
  with c have "nat \<lceil>(varyFinish + varyStep - varyStart) / varyStep\<rceil>
      = nat \<lceil>(varyFinish - varyStart) / varyStep\<rceil> + 1"
    by (simp add: nat_add_distrib)
  then show ?thesis
    using assms by (simp add: varyThickness_of_def np_arange_def)
qed

text \<open>
  Claim C7 at the range \<open>varyStart = 0\<close>, \<open>varyFinish = 7\<close>, \<open>varyStep = 5\<close>: the
  sweep visits the three thicknesses \<open>0\<close>, \<open>5\<close> and \<open>10\<close>, the last one beyond
  \<open>varyFinish\<close>, where the claim gives \<open>floor (7 / 5) + 1 = 2\<close> values.
\<close>

theorem varyThickness_overshoots:
  "varyThickness_of 0 7 5 = Inr [0, 5, 10] \<and> \<lfloor>((7::real) - 0) / 5\<rfloor> + 1 = 2"
  by (simp add: varyThickness_of_def np_arange_def upt_rec)

section \<open>Properties of the field loop\<close>

lemma assign_E_length: "length (assign_E E idxs ind v) = length E"
  unfolding assign_E_def by (induction idxs arbitrary: E) simp_all

lemma assign_E_nth:
  "i < length E \<Longrightarrow>
   assign_E E idxs ind v ! i ! j =
     (if i \<in> set idxs \<and> j = ind \<and> ind < length (E ! i) then v i else E ! i ! j)"
  unfolding assign_E_def
proof (induction idxs arbitrary: E)
  case Nil
  then show ?case by simp
next
  case (Cons a idxs)
  let ?E = "E[a := (E ! a)[ind := v a]]"
  have len: "i < length ?E" using Cons.prems by simp
  have row: "length (?E ! i) = length (E ! i)"
    using Cons.prems by (cases "i = a") simp_all
  show ?case
    using Cons.IH[OF len] Cons.prems row
    by (cases "i = a"; cases "j = ind") (auto simp: nth_list_update list_update_beyond not_less)
qed

lemma assign_E_row_length:
  "i < length E \<Longrightarrow> length (assign_E E idxs ind v ! i) = length (E ! i)"
  unfolding assign_E_def
proof (induction idxs arbitrary: E)
  case Nil
  then show ?case by simp
next
  case (Cons a idxs)
  let ?E = "E[a := (E ! a)[ind := v a]]"
  have len: "i < length ?E" using Cons.prems by simp
  have row: "length (?E ! i) = length (E ! i)"
    using Cons.prems by (cases "i = a") simp_all
  show ?case using Cons.IH[OF len] row by simp
qed

lemma field_material_nth:
  "i < length E \<Longrightarrow>
   field_material n t lambdas x_pos x_mat ind Tv E m ! i ! j =
     (if i < length x_mat \<and> x_mat ! i = m \<and> j = ind \<and> ind < length (E ! i)
      then E_value n t lambdas ind Tv m (x_pos ! i - cumsum t ! (m - 1))
      else E ! i ! j)"
  by (simp add: field_material_def assign_E_nth x_indices_of_def)

lemma field_material_length: "length (field_material n t lambdas x_pos x_mat ind Tv E m) = length E"
  by (simp add: field_material_def assign_E_length)

lemma field_material_row_length:
  "i < length E \<Longrightarrow> length (field_material n t lambdas x_pos x_mat ind Tv E m ! i) = length (E ! i)"
  by (simp add: field_material_def assign_E_row_length)

lemma field_materials_length:
  "length (foldl (field_material n t lambdas x_pos x_mat ind Tv) E ms) = length E"
  by (induction ms arbitrary: E) (simp_all add: field_material_length)

lemma field_materials_row_length:
  "i < length E \<Longrightarrow>
   length (foldl (field_material n t lambdas x_pos x_mat ind Tv) E ms ! i) = length (E ! i)"
  by (induction ms arbitrary: E) (simp_all add: field_material_length field_material_row_length)

lemma field_materials_nth:
  "i < length E \<Longrightarrow>
   foldl (field_material n t lambdas x_pos x_mat ind Tv) E ms ! i ! j =
     (if i < length x_mat \<and> x_mat ! i \<in> set ms \<and> j = ind \<and> ind < length (E ! i)
      then E_value n t lambdas ind Tv (x_mat ! i) (x_pos ! i - cumsum t ! (x_mat ! i - 1))
      else E ! i ! j)"
proof (induction ms rule: rev_induct)
  case Nil
  then show ?case by simp
next
  case (snoc m ms)
  let ?E = "foldl (field_material n t lambdas x_pos x_mat ind Tv) E ms"
  have len: "i < length ?E" using snoc.prems by (simp add: field_materials_length)
  have row: "length (?E ! i) = length (E ! i)"
    using snoc.prems by (rule field_materials_row_length)
  show ?case
    using snoc.IH[OF snoc.prems] field_material_nth[OF len, of n t lambdas x_pos x_mat ind Tv m j] row
    by auto
qed

lemma field_wavelength_nth:
  "i < length E \<Longrightarrow>
   field_wavelength n t lambdas x_pos x_mat Ts E ind ! i ! j =
     (if i < length x_mat \<and> 1 \<le> x_mat ! i \<and> x_mat ! i < length t \<and> j = ind \<and> ind < length (E ! i)
      then E_value n t lambdas ind (Ts ! ind) (x_mat ! i) (x_pos ! i - cumsum t ! (x_mat ! i - 1))
      else E ! i ! j)"
  by (simp add: field_wavelength_def field_materials_nth)

lemma field_wavelength_length: "length (field_wavelength n t lambdas x_pos x_mat Ts E ind) = length E"
  by (simp add: field_wavelength_def field_materials_length)

lemma field_wavelength_row_length:
  "i < length E \<Longrightarrow> length (field_wavelength n t lambdas x_pos x_mat Ts E ind ! i) = length (E ! i)"
  by (simp add: field_wavelength_def field_materials_row_length)

lemma field_wavelengths_length:
  "length (foldl (field_wavelength n t lambdas x_pos x_mat Ts) E inds) = length E"
  by (induction inds arbitrary: E) (simp_all add: field_wavelength_length)

lemma field_wavelengths_row_length:
  "i < length E \<Longrightarrow>
   length (foldl (field_wavelength n t lambdas x_pos x_mat Ts) E inds ! i) = length (E ! i)"
  by (induction inds arbitrary: E) (simp_all add: field_wavelength_length field_wavelength_row_length)

lemma field_wavelengths_nth:
  "i < length E \<Longrightarrow>
   foldl (field_wavelength n t lambdas x_pos x_mat Ts) E inds ! i ! j =
     (if i < length x_mat \<and> 1 \<le> x_mat ! i \<and> x_mat ! i < length t \<and> j \<in> set inds \<and> j < length (E ! i)
      then E_value n t lambdas j (Ts ! j) (x_mat ! i) (x_pos ! i - cumsum t ! (x_mat ! i - 1))
      else E ! i ! j)"
proof (induction inds rule: rev_induct)
  case Nil
  then show ?case by simp
next
  case (snoc ind inds)
  let ?E = "foldl (field_wavelength n t lambdas x_pos x_mat Ts) E inds"
  have len: "i < length ?E" using snoc.prems by (simp add: field_wavelengths_length)
  have row: "length (?E ! i) = length (E ! i)"
    using snoc.prems by (rule field_wavelengths_row_length)
  show ?case
    using snoc.IH[OF snoc.prems] field_wavelength_nth[OF len, of n t lambdas x_pos x_mat Ts ind j] row
    by auto
qed

lemma step_E_nth:
  assumes "i < length x_pos" "ind < length (lambdas_arr g)"
  shows "step_E g thickInd x_pos ! i ! ind =
     (let t = step_t g thickInd; m = x_mat_of x_pos (cumsum t) ! i in
      if 1 \<le> m \<and> m < length t
      then E_value (n_arr g) t (lambdas_arr g) ind (step_T g thickInd ! ind) m
             (x_pos ! i - cumsum t ! (m - 1))
      else Some 0)"
  using assms by (simp add: step_E_def field_wavelengths_nth Let_def x_mat_of_def)

section \<open>Properties of the sweep step\<close>

lemma sweep_step_frame:
  assumes "sweep_step thickInd g = Inr g'"
  shows "n_arr g' = n_arr g" "am15_int_y g' = am15_int_y g" "lambdas_arr g' = lambdas_arr g"
    "x_step g' = x_step g" "activeLayer g' = activeLayer g" "layerVaried g' = layerVaried g"
    "varyThickness g' = varyThickness g" "T_glass g' = T_glass g" "R_glass g' = R_glass g"
    "thicknesses g' = step_t g thickInd" "R_arr g' = step_R g thickInd"
    "T_arr g' = step_T g thickInd" "length (Jsc g') = length (Jsc g)"
  using assms by (auto simp: sweep_step_def split: if_splits sum.splits)

lemma sweep_step_ok:
  assumes "layerVaried g < length (thicknesses g)" "thickInd < length (varyThickness g)"
    "x_step g \<noteq> 0" "max 2 (length (thicknesses g)) \<le> length (n_arr g)"
    "activeLayer g < length (thicknesses g)" "lambdas_arr g \<noteq> []" "thickInd < length (Jsc g)"
  shows "\<exists>g'. sweep_step thickInd g = Inr g'"
  using assms
  by (auto simp: sweep_step_def step_x_pos_def np_arange_def lambda_step_of_def
      split: sum.splits)

lemma step_t_after:
  assumes "sweep_step k g = Inr g'"
  shows "step_t g' j = step_t g j"
  using sweep_step_frame[OF assms] by (simp add: step_t_def)

lemma step_after:
  assumes "sweep_step k g = Inr g'"
  shows "step_x_pos g' j = step_x_pos g j" "step_R g' j = step_R g j"
    "step_T g' j = step_T g j" "step_E g' j xp = step_E g j xp"
proof -
  note f = sweep_step_frame[OF assms] and t = step_t_after[OF assms]
  show "step_x_pos g' j = step_x_pos g j" by (simp add: step_x_pos_def t f)
  show r: "step_R g' j = step_R g j" by (simp add: step_R_def t f)
  show T: "step_T g' j = step_T g j" by (simp add: step_T_def r f)
  show "step_E g' j xp = step_E g j xp" by (simp add: step_E_def t T f)
qed

lemma step_t_length: "length (step_t g k) = length (thicknesses g)"
  by (simp add: step_t_def)

lemma sweep_step_next:
  assumes k: "sweep_step k g = Inr g'" and j: "sweep_step j g' = Inr g''"
  shows "\<exists>h. sweep_step j g = Inr h \<and> thicknesses h = thicknesses g'' \<and> R_arr h = R_arr g''
           \<and> T_arr h = T_arr g'' \<and> E_arr h = E_arr g'' \<and> lambda_step h = lambda_step g''
           \<and> Jsc h ! j = Jsc g'' ! j"
proof -
  note f = sweep_step_frame[OF k] and t = step_t_after[OF k] and s = step_after[OF k]
  show ?thesis
    using j by (auto simp: sweep_step_def t s f step_t_length split: if_splits sum.splits)
qed





lemma two_layer_step: "\<exists>g'. sweep_step 0 example_two_layer = Inr g'"
  by (rule sweep_step_ok) (simp_all add: example_two_layer_def)

lemma three_layer_step0: "\<exists>g'. sweep_step 0 example_three_layer = Inr g'"
  by (rule sweep_step_ok) (simp_all add: example_three_layer_def)

lemma three_layer_step1: "\<exists>g'. sweep_step (Suc 0) example_three_layer = Inr g'"
  by (rule sweep_step_ok) (simp_all add: example_three_layer_def)

lemma three_layer_fields:
  "R_glass example_three_layer = [Some (1 / 9)]"
  "n_arr example_three_layer ! 0 ! 0 = 2"
  "lambdas_arr example_three_layer = [4]"
  by (simp_all add: example_three_layer_def R_glass_of_def cdiv_def power2_eq_square)

lemma three_layer_R0: "step_R example_three_layer 0 = [Some 0]"
  by (simp add: step_R_def example_three_layer_def step_t_def R_at_def S_chain_def S_step_def
      I_mat_Some L_mat_def cdiv_def R_of_def)

lemma three_layer_R1: "step_R example_three_layer (Suc 0) = [Some (9 / 25)]"
  by (simp add: step_R_def example_three_layer_def step_t_def R_at_def S_chain_def S_step_def
      I_mat_Some L_quarter cdiv_def R_of_def norm_mult power2_eq_square)

lemma three_layer_T0: "step_T example_three_layer 0 = [Some (2 / 3)]"
  by (simp add: step_T_def three_layer_R0 three_layer_fields T_of_def cdiv_def)

lemma three_layer_T1: "step_T example_three_layer (Suc 0) = [Some (2 / 3 / sqrt (24 / 25))]"
  by (simp add: step_T_def three_layer_R1 three_layer_fields T_of_def cdiv_def)

lemma sweep_loop_frame:
  "sweep_loop ks g = Inr gf \<Longrightarrow> T_glass gf = T_glass g \<and> R_glass gf = R_glass g \<and> n_arr gf = n_arr g"
proof (induction ks arbitrary: g)
  case Nil
  then show ?case by simp
next
  case (Cons k ks)
  from Cons.prems obtain g' where st: "sweep_step k g = Inr g'" and rest: "sweep_loop ks g' = Inr gf"
    by (auto split: sum.splits)
  from Cons.IH[OF rest] sweep_step_frame[OF st] show ?case by simp
qed

text \<open>
  Claim C4, as amended. The transmittance \<open>T = |2 / (1 + n0)| / sqrt (1 - R_glass R)\<close>
  is recomputed at every sweep step for every wavelength, from the reflectance \<open>R\<close> of
  the stack with that step's thicknesses. \<open>T_glass\<close> and \<open>R_glass\<close> are computed once
  from the index of layer \<open>0\<close> before the sweep, and no sweep step changes them.
\<close>

theorem T_recomputed_at_every_step:
  "(sweep_step thickInd g = Inr g' \<longrightarrow>
      T_glass g' = T_glass g \<and> R_glass g' = R_glass g
      \<and> R_arr g' = map (R_at (n_arr g) (thicknesses g') (lambdas_arr g))
                      [0..<length (lambdas_arr g)]
      \<and> T_arr g' = map (\<lambda>ind. T_of (n_arr g ! 0 ! ind) (R_glass g ! ind) (R_arr g' ! ind))
                      [0..<length (lambdas_arr g)])
   \<and> (init_globals n am15 lambdas ts active varied varyStart varyFinish varyStep lstep0 xstep
        = Inr g0 \<longrightarrow> T_glass g0 = T_glass_of (n ! 0) \<and> R_glass g0 = R_glass_of (n ! 0))
   \<and> (sweep_loop ks g = Inr gf \<longrightarrow> T_glass gf = T_glass g \<and> R_glass gf = R_glass g)"
proof (intro conjI impI)
  assume st: "sweep_step thickInd g = Inr g'"
  note f = sweep_step_frame[OF st]
  show "T_glass g' = T_glass g" "R_glass g' = R_glass g" by (rule f)+
  show "R_arr g' = map (R_at (n_arr g) (thicknesses g') (lambdas_arr g))
                      [0..<length (lambdas_arr g)]"
    by (simp add: f step_R_def)
  show "T_arr g' = map (\<lambda>ind. T_of (n_arr g ! 0 ! ind) (R_glass g ! ind) (R_arr g' ! ind))
                      [0..<length (lambdas_arr g)]"
    by (simp add: f step_T_def)
next
  assume i: "init_globals n am15 lambdas ts active varied varyStart varyFinish varyStep lstep0 xstep
        = Inr g0"
  then show "T_glass g0 = T_glass_of (n ! 0)" "R_glass g0 = R_glass_of (n ! 0)"
    by (auto simp: init_globals_def split: sum.splits if_splits)
next
  assume "sweep_loop ks g = Inr gf"
  from sweep_loop_frame[OF this] show "T_glass gf = T_glass g" "R_glass gf = R_glass g"
    by simp_all
qed

lemma three_layer_init:
  "init_globals [[2], [1], [2]] [1] [4] [5, 0, 0] 1 1 0 1 1 1 (1 / 2) = Inr example_three_layer"
  by (simp add: init_globals_def varyThickness_of_def np_arange_def example_three_layer_def upt_rec)

theorem T_recomputed_at_every_step_witness:
  "map_sum id R_glass (sweep_step 1 example_three_layer) = Inr [Some (1 / 9)]
   \<and> map_sum id R_glass
        (init_globals [[2], [1], [2]] [1] [4] [5, 0, 0] 1 1 0 1 1 1 (1 / 2)) = Inr [Some (1 / 9)]
   \<and> map_sum id R_glass (sweep_loop [1] example_three_layer) = Inr [Some (1 / 9)]"
proof -
  from three_layer_step1 obtain g' where st: "sweep_step (Suc 0) example_three_layer = Inr g'"
    by blast
  then have lp: "sweep_loop [Suc 0] example_three_layer = Inr g'" by simp
  note i = three_layer_init
  from T_recomputed_at_every_step
    [of "Suc 0" example_three_layer g' "[[2], [1], [2]]" "[1]" "[4]" "[5, 0, 0]" 1 1 0 1 1 1 "1 / 2"
        example_three_layer "[Suc 0]" g'] st lp i
  have "R_glass g' = R_glass example_three_layer"
    "R_glass example_three_layer = R_glass_of ([[2], [1], [2]] ! 0)"
    by simp_all
  with st lp i show ?thesis by (simp add: three_layer_fields)
qed

text \<open>
  The claim C4 as the specification states it, one value of \<open>T\<close> for all sweep steps,
  fails on the three-layer stack: after the first step (thickness \<open>0\<close>) the
  transmittance is \<open>2/3\<close>, after the second (a quarter of the wavelength) it is not.
\<close>

theorem T_differs_between_steps:
  "map_sum id T_arr (sweep_loop [0] example_three_layer) = Inr [Some (2 / 3)]
   \<and> map_sum id T_arr (sweep_loop [0, 1] example_three_layer) = Inr [Some (2 / 3 / sqrt (24 / 25))]
   \<and> (2 / 3 :: real) \<noteq> 2 / 3 / sqrt (24 / 25)"
proof -
  from three_layer_step0 obtain g1 where s0: "sweep_step 0 example_three_layer = Inr g1"
    by blast
  from three_layer_step1 obtain h where "sweep_step (Suc 0) example_three_layer = Inr h"
    by blast
  note f1 = sweep_step_frame[OF s0]
  have "\<exists>g2. sweep_step (Suc 0) g1 = Inr g2"
    by (rule sweep_step_ok) (simp_all add: f1 step_t_length, simp_all add: example_three_layer_def)
  then obtain g2 where s1: "sweep_step (Suc 0) g1 = Inr g2" by blast
  have T1: "T_arr g1 = [Some (2 / 3)]" by (simp add: f1 three_layer_T0)
  have T2: "T_arr g2 = [Some (2 / 3 / sqrt (24 / 25))]"
    by (simp add: sweep_step_frame[OF s1] step_after[OF s0] three_layer_T1)
  show ?thesis using s0 s1 T1 T2 by simp
qed

section \<open>What one sweep step hands to the next\<close>

text \<open>
  Claim C6, as amended. The index table, the spectrum and the wavelength grid are
  invariant across the sweep. The thickness list is shared by the sweep steps and
  written in place: after step \<open>k\<close> it holds the thickness of step \<open>k\<close> at the
  varied index. Every step overwrites that entry before it reads the list, so the
  thickness configuration read at a later step \<open>j\<close>, and with it the reflectance,
  the transmittance, the field, the wavelength step and the photocurrent of step \<open>j\<close>,
  are the same whether or not step \<open>k\<close> ran before.
\<close>

theorem sweep_step_independent_of_previous_step:
  assumes "sweep_step k g = Inr g'"
  shows "n_arr g' = n_arr g \<and> am15_int_y g' = am15_int_y g \<and> lambdas_arr g' = lambdas_arr g
    \<and> thicknesses g' = (thicknesses g)[layerVaried g := varyThickness g ! k]
    \<and> step_t g' j = step_t g j
    \<and> (\<forall>g''. sweep_step j g' = Inr g'' \<longrightarrow>
          (\<exists>h. sweep_step j g = Inr h \<and> thicknesses h = thicknesses g'' \<and> R_arr h = R_arr g''
             \<and> T_arr h = T_arr g'' \<and> E_arr h = E_arr g'' \<and> lambda_step h = lambda_step g''
             \<and> Jsc h ! j = Jsc g'' ! j))"
proof -
  note f = sweep_step_frame[OF assms]
  have "thicknesses g' = (thicknesses g)[layerVaried g := varyThickness g ! k]"
    using f by (simp add: step_t_def)
  moreover have "step_t g' j = step_t g j"
    using assms by (rule step_t_after)
  moreover have "\<forall>g''. sweep_step j g' = Inr g'' \<longrightarrow>
          (\<exists>h. sweep_step j g = Inr h \<and> thicknesses h = thicknesses g'' \<and> R_arr h = R_arr g''
             \<and> T_arr h = T_arr g'' \<and> E_arr h = E_arr g'' \<and> lambda_step h = lambda_step g''
             \<and> Jsc h ! j = Jsc g'' ! j)"
    using sweep_step_next[OF assms] by blast
  ultimately show ?thesis using f by simp
qed

lemma three_layer_step1_after_step0:
  assumes "sweep_step 0 example_three_layer = Inr g1"
  shows "\<exists>g2. sweep_step (Suc 0) g1 = Inr g2"
  by (rule sweep_step_ok)
     (simp_all add: sweep_step_frame[OF assms] step_t_length, simp_all add: example_three_layer_def)

theorem sweep_step_independent_of_previous_step_witness:
  "map_sum id thicknesses (sweep_loop [0, 1] example_three_layer)
     = map_sum id thicknesses (sweep_step 1 example_three_layer)
   \<and> map_sum id T_arr (sweep_loop [0, 1] example_three_layer)
     = map_sum id T_arr (sweep_step 1 example_three_layer)
   \<and> map_sum id n_arr (sweep_step 0 example_three_layer) = Inr [[2], [1], [2]]"
proof -
  from three_layer_step0 obtain g1 where s0: "sweep_step 0 example_three_layer = Inr g1"
    by blast
  from three_layer_step1_after_step0[OF s0] obtain g2 where s1: "sweep_step (Suc 0) g1 = Inr g2"
    by blast
  from sweep_step_independent_of_previous_step [OF s0, of "Suc 0"] s1
  obtain h where h: "sweep_step (Suc 0) example_three_layer = Inr h"
      "thicknesses h = thicknesses g2" "T_arr h = T_arr g2"
    and n: "n_arr g1 = n_arr example_three_layer"
    by blast
  have "n_arr example_three_layer = [[2], [1], [2]]" by (simp add: example_three_layer_def)
  with s0 s1 h n show ?thesis by simp
qed

text \<open>
  The claim C6 as the specification states it, no mutable state shared between the
  sweep steps but the index table and the spectrum, fails on the three-layer stack:
  the thickness list the sweep was given is \<open>[0, 0, 0]\<close>, and the second step leaves
  \<open>[0, 1, 0]\<close> in it for whatever runs next.
\<close>

theorem thickness_list_is_shared_state:
  "thicknesses example_three_layer = [0, 0, 0]
   \<and> map_sum id thicknesses (sweep_loop [0] example_three_layer) = Inr [0, 0, 0]
   \<and> map_sum id thicknesses (sweep_loop [0, 1] example_three_layer) = Inr [0, 1, 0]"
proof -
  from three_layer_step0 obtain g1 where s0: "sweep_step 0 example_three_layer = Inr g1"
    by blast
  from three_layer_step1_after_step0[OF s0] obtain g2 where s1: "sweep_step (Suc 0) g1 = Inr g2"
    by blast
  have t1: "thicknesses g1 = [0, 0, 0]"
    by (simp add: sweep_step_frame[OF s0] step_t_def example_three_layer_def)
  have "thicknesses g2 = step_t g1 (Suc 0)"
    by (rule sweep_step_frame[OF s1])
  also have "\<dots> = step_t example_three_layer (Suc 0)"
    by (rule step_t_after[OF s0])
  finally have t2: "thicknesses g2 = [0, 1, 0]"
    by (simp add: step_t_def example_three_layer_def)
  show ?thesis using s0 s1 t1 t2 by (simp add: example_three_layer_def)
qed

section \<open>Which entries of the field array are assigned\<close>

lemma E_value_last_layer:
  assumes last: "length t - 1 \<le> material"
    and lam: "lambdas ! ind \<noteq> 0"
    and sp: "S_prime_of n t lambdas ind material = Some sp" "m00 sp \<noteq> 0"
    and T: "Tv = Some T" "T \<noteq> 0"
  shows "\<exists>v. E_value n t lambdas ind Tv material x = Some v \<and> v \<noteq> 0"
proof -
  have sd: "S_dprime_of n t lambdas ind material = Some eye2"
    using last by (simp add: S_dprime_of_def)
  show ?thesis
    using lam sp T by (simp add: E_value_def sd cdiv_def eye2_def Let_def)
qed

lemma two_layer_x_pos: "step_x_pos example_two_layer 0 = Inr [5 / 2, 15 / 2]"
  by (simp add: step_x_pos_def step_t_def example_two_layer_def np_arange_def upt_rec)

lemma two_layer_fields:
  "n_arr example_two_layer = [[3 / 2], [2]]"
  "lambdas_arr example_two_layer = [500]"
  "step_t example_two_layer 0 = [0, 10]"
  by (simp_all add: example_two_layer_def step_t_def)

lemma two_layer_x_mat: "x_mat_of [5 / 2, 15 / 2] (cumsum [0, 10]) = [Suc 0, Suc 0]"
  by (simp add: cumsum_def x_mat_of_def layer_of_def)

lemma two_layer_T: "step_T example_two_layer 0 = [Some (4 / 5 / sqrt (1224 / 1225))]"
  by (simp add: step_T_def step_R_def example_two_layer_def step_t_def R_at_def S_chain_def
      I_mat_Some R_of_def cdiv_def R_glass_of_def T_of_def power2_eq_square)

lemma two_layer_S_prime:
  "S_prime_of [[3 / 2], [2]] [0, 10] [500] 0 (Suc 0) = Some (Mat2 (7 / 6) (- (1 / 6)) (- (1 / 6)) (7 / 6))"
  by (simp add: S_prime_of_def I_mat_Some)

text \<open>
  Claim C5, as amended. After the field loop of a sweep step, the entry of the field
  array for a sample position assigned to a layer \<open>m\<close> with \<open>1 \<le> m \<le> last index\<close>,
  the exit layer included, is the field amplitude computed for layer \<open>m\<close>; the entry
  for a position assigned to the incidence layer (index \<open>0\<close>) is never assigned and
  keeps the initial value \<open>0\<close>.
\<close>

theorem field_assigned_in_layers_1_to_last:
  assumes "i < length x_pos" "ind < length (lambdas_arr g)"
  shows "step_E g thickInd x_pos ! i ! ind =
     (let t = step_t g thickInd; m = x_mat_of x_pos (cumsum t) ! i in
      if 1 \<le> m \<and> m < length t
      then E_value (n_arr g) t (lambdas_arr g) ind (step_T g thickInd ! ind) m
             (x_pos ! i - cumsum t ! (m - 1))
      else Some 0)"
  using assms by (rule step_E_nth)

theorem field_assigned_in_layers_1_to_last_witness:
  "step_E example_two_layer 0 [5 / 2, 15 / 2] ! 1 ! 0 =
     E_value [[3 / 2], [2]] [0, 10] [500] 0 (Some (4 / 5 / sqrt (1224 / 1225))) 1 (15 / 2)"
  using field_assigned_in_layers_1_to_last [of 1 "[5 / 2, 15 / 2]" 0 example_two_layer 0]
  by (simp add: two_layer_fields two_layer_x_mat two_layer_T Let_def) (simp add: cumsum_def)

text \<open>
  The claim C5 as the specification states it, no field value for a point of the
  exit layer, fails on the two-layer stack: both sample positions lie in layer \<open>1\<close>,
  the last one, and the field loop replaces the initial \<open>0\<close> of the first of them by
  a non-zero amplitude.
\<close>

theorem exit_layer_field_is_assigned:
  "step_x_pos example_two_layer 0 = Inr [5 / 2, 15 / 2]
   \<and> x_mat_of [5 / 2, 15 / 2] (cumsum (step_t example_two_layer 0)) = [1, 1]
   \<and> length (step_t example_two_layer 0) - 1 = 1
   \<and> step_E example_two_layer 0 [5 / 2, 15 / 2] ! 0 ! 0 \<noteq> Some 0"
proof -
  have e: "step_E example_two_layer 0 [5 / 2, 15 / 2] ! 0 ! 0 =
     E_value [[3 / 2], [2]] [0, 10] [500] 0 (Some (4 / 5 / sqrt (1224 / 1225))) (Suc 0) (5 / 2)"
    using step_E_nth [of 0 "[5 / 2, 15 / 2]" 0 example_two_layer 0]
    by (simp add: two_layer_fields two_layer_x_mat two_layer_T Let_def) (simp add: cumsum_def)
  have "\<exists>v. E_value [[3 / 2], [2]] [0, 10] [500] 0 (Some (4 / 5 / sqrt (1224 / 1225))) (Suc 0) (5 / 2)
          = Some v \<and> v \<noteq> 0"
  proof (rule E_value_last_layer[OF _ _ two_layer_S_prime])
    have "sqrt (1224 / 1225) \<noteq> 0" by simp
    then show "4 / 5 / sqrt (1224 / 1225) \<noteq> 0" by simp
  qed simp_all
  with e have "step_E example_two_layer 0 [5 / 2, 15 / 2] ! 0 ! 0 \<noteq> Some 0"
    by auto
  moreover have "length (step_t example_two_layer 0) - 1 = 1"
    by (simp add: step_t_def example_two_layer_def)
  ultimately show ?thesis
    using two_layer_x_pos two_layer_x_mat by (simp add: two_layer_fields)
qed

section \<open>The wavelength step of the integrator and the photocurrent\<close>



lemma a_of_nth:
  "active < length t \<Longrightarrow> ind < length lambdas \<Longrightarrow>
   a_of n t lambdas ! active ! ind =
     (if active = 0 then Some 0
      else rdiv (4 * pi * Im (n ! active ! ind)) (lambdas ! ind * (1 / 10 ^ 7)))"
  by (simp add: a_of_def)





















end
